theory Spec2Isabelle
  imports Complex_Main
begin

section \<open>Data model of \<open>stattests.py\<close>\<close>

text \<open>
  The module reduces a two-variant table of per-unit observations to summary statistics
  and hands them to a hypothesis test. The embedding below follows \<open>src/stattests.py\<close>
  function by function.

  Modelling decisions, all of them visible in the definitions:
  \<^item> A pandas data frame is the list of its rows (in the frame's natural order, with a
    unique index) together with the derived column \<open>l_ratio\<close>, which a frame may or may
    not have. The columns \<open>variant\<close> (\<open>cfg.VARIANT_COL\<close>), \<open>num\<close>, \<open>den\<close> and
    \<open>n\<close> are the fields of a row.
  \<^item> Input cells are exact rationals. The columns \<open>num\<close> and \<open>den\<close> have a dtype,
    \<open>int64\<close> (pandas' default for integers; its cells are integers of the signed 64-bit
    range) or \<open>float64\<close>: numpy's sum of an \<open>int64\<close> series wraps around, the builtin
    \<open>sum\<close> adds Python numbers and does not.
  \<^item> A computed float is a \<open>pyfloat\<close>: either a finite rational or \<open>NonFinite\<close>, which
    stands for the IEEE values \<open>inf\<close>, \<open>-inf\<close> and \<open>nan\<close> that numpy produces (with a
    warning, not an exception) on a division by zero. A division of two Python numbers
    by zero raises \<open>ZeroDivisionError\<close>. Rounding of floats is not modelled.
  \<^item> Python exceptions are values of \<open>py_error\<close>; a function that mutates the frame it
    is given returns the frame as it is afterwards next to its result, also when it
    raises.
\<close>

datatype py_error = IndexError | KeyError string | ZeroDivisionError

datatype dtype = Int64 | Float64

datatype pyfloat = Finite rat | NonFinite

record 'v row =
  col_variant :: 'v
  col_num :: rat
  col_den :: rat
  col_n :: rat

record 'v dataframe =
  rows :: "'v row list"
  l_ratio :: "pyfloat list option"
  col_num_dtype :: dtype
  col_den_dtype :: dtype

text \<open>A pandas series, where its dtype matters: the dtype and the cells.\<close>

type_synonym series = "dtype \<times> rat list"

text \<open>\<open>class Statistics\<close>: \<open>den_0\<close> and \<open>den_1\<close> default to \<open>None\<close>. The fields
  \<open>num_0\<close> and \<open>num_1\<close> are series cut from the column \<open>num\<close>: the record holds their
  cells and, in \<open>num_dtype\<close>, the dtype of that column.\<close>

record Statistics =
  mean_0 :: pyfloat
  mean_1 :: pyfloat
  var_0 :: pyfloat
  var_1 :: pyfloat
  n_0 :: rat
  n_1 :: rat
  num_0 :: "rat list"
  num_1 :: "rat list"
  den_0 :: "rat list option"
  den_1 :: "rat list option"
  num_dtype :: dtype

text \<open>\<open>class EstimatorCriteriaValues\<close>: a field is \<open>None\<close> when it is unset.\<close>

record 'f EstimatorCriteriaValues =
  pvalue :: "'f option"
  statistic :: "'f option"

section \<open>pandas and numpy primitives\<close>

text \<open>\<open>Series.unique()\<close>: the distinct values in order of first appearance.\<close>

fun unique_acc :: "'a list \<Rightarrow> 'a list \<Rightarrow> 'a list" where
  "unique_acc seen [] = seen"
| "unique_acc seen (x # xs) =
     (if x \<in> set seen then unique_acc seen xs else unique_acc (seen @ [x]) xs)"

definition unique :: "'a list \<Rightarrow> 'a list" where
  "unique xs = unique_acc [] xs"

text \<open>\<open>a[i]\<close> on an array: out of range raises \<open>IndexError\<close>.\<close>

definition get_item :: "'a list \<Rightarrow> nat \<Rightarrow> py_error + 'a" where
  "get_item xs i = (if i < length xs then Inr (xs ! i) else Inl IndexError)"

text \<open>\<open>df[c][df[cfg.VARIANT_COL] == v]\<close>: the cells of column \<open>c\<close> in the rows of variant \<open>v\<close>.\<close>

definition masked :: "('v row \<Rightarrow> 'a) \<Rightarrow> 'v \<Rightarrow> 'v row list \<Rightarrow> 'a list" where
  "masked c v rs = map c (filter (\<lambda>r. col_variant r = v) rs)"

text \<open>\<open>np.sum\<close> and \<open>Series.sum\<close>: the accumulator of an \<open>int64\<close> series is an
  \<open>int64\<close>, so the sum is the exact sum wrapped to the range from \<open>-2^63\<close> to
  \<open>2^63 - 1\<close>; a \<open>float64\<close> series does not wrap.\<close>

definition wrap_int64 :: "int \<Rightarrow> int" where
  "wrap_int64 i = (i + 2 ^ 63) mod 2 ^ 64 - 2 ^ 63"

fun np_sum :: "series \<Rightarrow> rat" where
  "np_sum (Int64, xs) = of_int (wrap_int64 (floor (sum_list xs)))"
| "np_sum (Float64, xs) = sum_list xs"


text \<open>\<open>a / b\<close> on two Python numbers, as the builtin \<open>sum\<close> returns them: a zero
  divisor raises \<open>ZeroDivisionError\<close>.\<close>

definition py_div :: "rat \<Rightarrow> rat \<Rightarrow> py_error + rat" where
  "py_div a b = (if b = 0 then Inl ZeroDivisionError else Inr (a / b))"

text \<open>Float arithmetic of numpy. A division by zero gives \<open>inf\<close> or \<open>nan\<close>; a non-finite
  operand of a subtraction or a multiplication gives a non-finite result.\<close>

definition fdiv :: "rat \<Rightarrow> rat \<Rightarrow> pyfloat" where
  "fdiv a b = (if b = 0 then NonFinite else Finite (a / b))"

fun fsub :: "pyfloat \<Rightarrow> pyfloat \<Rightarrow> pyfloat" where
  "fsub (Finite a) (Finite b) = Finite (a - b)"
| "fsub _ _ = NonFinite"

fun fmul :: "pyfloat \<Rightarrow> pyfloat \<Rightarrow> pyfloat" where
  "fmul (Finite a) (Finite b) = Finite (a * b)"
| "fmul _ _ = NonFinite"

text \<open>The finite cells of a column, when all of them are finite.\<close>

fun finite_cells :: "pyfloat list \<Rightarrow> rat list option" where
  "finite_cells [] = Some []"
| "finite_cells (Finite q # xs) = (case finite_cells xs of None \<Rightarrow> None | Some qs \<Rightarrow> Some (q # qs))"
| "finite_cells (NonFinite # xs) = None"

text \<open>\<open>Series.var()\<close> with pandas' default \<open>ddof = 1\<close>: the sum of the squared deviations
  from the mean over the number of cells less one, and \<open>nan\<close> on fewer than two cells.
  The count is the number of cells: no other column weighs in. A column with a
  non-finite cell gives \<open>nan\<close>: in this module a derived column has a non-finite cell
  only when the pooled ratio is non-finite, and then all its cells are.\<close>

definition sample_var :: "rat list \<Rightarrow> pyfloat" where
  "sample_var qs =
     (if length qs < 2 then NonFinite
      else let m = sum_list qs / of_nat (length qs)
           in Finite (sum_list (map (\<lambda>q. (q - m) * (q - m)) qs) / (of_nat (length qs) - 1)))"

definition series_var :: "pyfloat list \<Rightarrow> pyfloat" where
  "series_var xs = (case finite_cells xs of None \<Rightarrow> NonFinite | Some qs \<Rightarrow> sample_var qs)"

text \<open>\<open>df.loc[mask, 'l_ratio'] = values\<close>: the masked cells take the values in order,
  the others keep theirs. A masked cell with no value left becomes \<open>nan\<close>.\<close>

fun loc_assign :: "bool list \<Rightarrow> pyfloat list \<Rightarrow> pyfloat list \<Rightarrow> pyfloat list" where
  "loc_assign (m # ms) (c # cs) vs =
     (if m then (case vs of [] \<Rightarrow> NonFinite # loc_assign ms cs []
                 | w # ws \<Rightarrow> w # loc_assign ms cs ws)
      else c # loc_assign ms cs vs)"
| "loc_assign ms cs vs = cs"

text \<open>The column \<open>l_ratio\<close> of a frame as \<open>.loc\<close> sees it: a frame without the column gets
  one of \<open>nan\<close> cells first.\<close>

definition l_ratio_cells :: "'v dataframe \<Rightarrow> pyfloat list" where
  "l_ratio_cells df =
     (case l_ratio df of None \<Rightarrow> replicate (length (rows df)) NonFinite | Some cs \<Rightarrow> cs)"

definition set_l_ratio :: "'v dataframe \<Rightarrow> 'v \<Rightarrow> pyfloat list \<Rightarrow> 'v dataframe" where
  "set_l_ratio df v vs =
     df\<lparr>l_ratio := Some (loc_assign (map (\<lambda>r. col_variant r = v) (rows df)) (l_ratio_cells df) vs)\<rparr>"

text \<open>\<open>df['l_ratio'][df[cfg.VARIANT_COL] == v]\<close>.\<close>

definition masked_l_ratio :: "'v dataframe \<Rightarrow> 'v \<Rightarrow> pyfloat list" where
  "masked_l_ratio df v =
     map snd (filter (\<lambda>(r, l). col_variant r = v) (zip (rows df) (l_ratio_cells df)))"

section \<open>Linearization\<close>

text \<open>\<open>Linearization.__call__\<close>: \<open>k = np.sum(num_0) / np.sum(den_0)\<close>, a division of
  two numpy scalars, then the two series \<open>num - k * den\<close>, cell by cell.\<close>

definition pooled_ratio :: "series \<Rightarrow> series \<Rightarrow> pyfloat" where
  "pooled_ratio num0 den0 = fdiv (np_sum num0) (np_sum den0)"

definition linearize :: "pyfloat \<Rightarrow> rat \<Rightarrow> rat \<Rightarrow> pyfloat" where
  "linearize k a b = fsub (Finite a) (fmul k (Finite b))"

definition Linearization_call ::
  "series \<Rightarrow> series \<Rightarrow> series \<Rightarrow> series \<Rightarrow> pyfloat list \<times> pyfloat list" where
  "Linearization_call num0 den0 num1 den1 =
     (let k = pooled_ratio num0 den0;
          l_0 = map (\<lambda>(a, b). linearize k a b) (zip (snd num0) (snd den0));
          l_1 = map (\<lambda>(a, b). linearize k a b) (zip (snd num1) (snd den1))
      in (l_0, l_1))"

text \<open>\<open>calculate_linearization\<close> works on the frame it is given: it sets the column
  \<open>l_ratio\<close> to 0, then fills it per variant, and returns the same frame. The second
  component of the result is that frame after the call.\<close>

definition calculate_linearization :: "'v dataframe \<Rightarrow> (py_error + unit) \<times> 'v dataframe" where
  "calculate_linearization df =
     (let variants = unique (map col_variant (rows df));
          df1 = df\<lparr>l_ratio := Some (replicate (length (rows df)) (Finite 0))\<rparr>
      in if list_all (\<lambda>r. col_den r = col_n r) (rows df) then
           (case get_item variants 0 of
              Inl e \<Rightarrow> (Inl e, df1)
            | Inr v0 \<Rightarrow>
               (let df2 = set_l_ratio df1 v0 (map Finite (masked col_num v0 (rows df1)))
                in case get_item variants 1 of
                     Inl e \<Rightarrow> (Inl e, df2)
                   | Inr v1 \<Rightarrow>
                       (Inr (), set_l_ratio df2 v1 (map Finite (masked col_num v1 (rows df2))))))
         else
           (case get_item variants 0 of
              Inl e \<Rightarrow> (Inl e, df1)
            | Inr v0 \<Rightarrow>
               (case get_item variants 1 of
                  Inl e \<Rightarrow> (Inl e, df1)
                | Inr v1 \<Rightarrow>
                   (let (l_0, l_1) =
                          Linearization_call
                            (col_num_dtype df1, masked col_num v0 (rows df1))
                            (col_den_dtype df1, masked col_den v0 (rows df1))
                            (col_num_dtype df1, masked col_num v1 (rows df1))
                            (col_den_dtype df1, masked col_den v1 (rows df1));
                        df2 = set_l_ratio df1 v0 l_0
                    in (Inr (), set_l_ratio df2 v1 l_1)))))"

section \<open>Metric aggregators\<close>

text \<open>Each aggregator reads \<open>_unique_variants[0]\<close> and \<open>_unique_variants[1]\<close>: a frame
  with fewer than two distinct variants raises \<open>IndexError\<close>. The builtin \<open>sum\<close> of a
  series adds its cells as Python numbers: it is the exact sum, and a division of two
  such sums raises \<open>ZeroDivisionError\<close> on a zero divisor.\<close>

text \<open>\<open>BaseStatsRatio.__call__\<close>: \<open>df = calculate_linearization(df)\<close> is the frame of
  the caller, with the derived column. The counts are summed first, then the two means
  are divided, the first variant's before the second's; a zero sum of \<open>den\<close> raises.\<close>

definition BaseStatsRatio_call :: "'v dataframe \<Rightarrow> (py_error + Statistics) \<times> 'v dataframe" where
  "BaseStatsRatio_call df0 =
     (let unique_variants = unique (map col_variant (rows df0))
      in case calculate_linearization df0 of
           (Inl e, df) \<Rightarrow> (Inl e, df)
         | (Inr u, df) \<Rightarrow>
            (case get_item unique_variants 0 of
               Inl e \<Rightarrow> (Inl e, df)
             | Inr v0 \<Rightarrow>
                (case get_item unique_variants 1 of
                   Inl e \<Rightarrow> (Inl e, df)
                 | Inr v1 \<Rightarrow>
                    (case py_div (sum_list (masked col_num v0 (rows df)))
                                 (sum_list (masked col_den v0 (rows df))) of
                       Inl e \<Rightarrow> (Inl e, df)
                     | Inr m0 \<Rightarrow>
                        (case py_div (sum_list (masked col_num v1 (rows df)))
                                     (sum_list (masked col_den v1 (rows df))) of
                           Inl e \<Rightarrow> (Inl e, df)
                         | Inr m1 \<Rightarrow>
                            (Inr \<lparr>mean_0 = Finite m0,
                                  mean_1 = Finite m1,
                                  var_0 = series_var (masked_l_ratio df v0),
                                  var_1 = series_var (masked_l_ratio df v1),
                                  n_0 = sum_list (masked col_n v0 (rows df)),
                                  n_1 = sum_list (masked col_n v1 (rows df)),
                                  num_0 = masked col_num v0 (rows df),
                                  num_1 = masked col_num v1 (rows df),
                                  den_0 = Some (masked col_den v0 (rows df)),
                                  den_1 = Some (masked col_den v1 (rows df)),
                                  num_dtype = col_num_dtype df\<rparr>, df))))))"

text \<open>\<open>BaseStatsUserLevel.__call__\<close>: the mean is the plain sum of \<open>num\<close>; no
  denominators are passed to \<open>Statistics\<close>.\<close>

definition BaseStatsUserLevel_call :: "'v dataframe \<Rightarrow> (py_error + Statistics) \<times> 'v dataframe" where
  "BaseStatsUserLevel_call df =
     (let unique_variants = unique (map col_variant (rows df))
      in case get_item unique_variants 0 of
           Inl e \<Rightarrow> (Inl e, df)
         | Inr v0 \<Rightarrow>
            (case get_item unique_variants 1 of
               Inl e \<Rightarrow> (Inl e, df)
             | Inr v1 \<Rightarrow>
                (Inr \<lparr>mean_0 = Finite (sum_list (masked col_num v0 (rows df))),
                      mean_1 = Finite (sum_list (masked col_num v1 (rows df))),
                      var_0 = series_var (map Finite (masked col_num v0 (rows df))),
                      var_1 = series_var (map Finite (masked col_num v1 (rows df))),
                      n_0 = sum_list (masked col_n v0 (rows df)),
                      n_1 = sum_list (masked col_n v1 (rows df)),
                      num_0 = masked col_num v0 (rows df),
                      num_1 = masked col_num v1 (rows df),
                      den_0 = None,
                      den_1 = None,
                      num_dtype = col_num_dtype df\<rparr>, df)))"

text \<open>\<open>BaseStatsBernoulli.__call__\<close>: the mean is the sum of \<open>num\<close> over \<open>n_0\<close>
  (\<open>n_1\<close>), the sum of the column \<open>n\<close>; a zero \<open>n_0\<close> (\<open>n_1\<close>) raises.\<close>

definition BaseStatsBernoulli_call :: "'v dataframe \<Rightarrow> (py_error + Statistics) \<times> 'v dataframe" where
  "BaseStatsBernoulli_call df =
     (let unique_variants = unique (map col_variant (rows df))
      in case get_item unique_variants 0 of
           Inl e \<Rightarrow> (Inl e, df)
         | Inr v0 \<Rightarrow>
            (case get_item unique_variants 1 of
               Inl e \<Rightarrow> (Inl e, df)
             | Inr v1 \<Rightarrow>
                (let n0 = sum_list (masked col_n v0 (rows df));
                     n1 = sum_list (masked col_n v1 (rows df))
                 in case py_div (sum_list (masked col_num v0 (rows df))) n0 of
                      Inl e \<Rightarrow> (Inl e, df)
                    | Inr m0 \<Rightarrow>
                       (case py_div (sum_list (masked col_num v1 (rows df))) n1 of
                          Inl e \<Rightarrow> (Inl e, df)
                        | Inr m1 \<Rightarrow>
                           (Inr \<lparr>mean_0 = Finite m0,
                                 mean_1 = Finite m1,
                                 var_0 = series_var (map Finite (masked col_num v0 (rows df))),
                                 var_1 = series_var (map Finite (masked col_num v1 (rows df))),
                                 n_0 = n0,
                                 n_1 = n1,
                                 num_0 = masked col_num v0 (rows df),
                                 num_1 = masked col_num v1 (rows df),
                                 den_0 = None,
                                 den_1 = None,
                                 num_dtype = col_num_dtype df\<rparr>, df)))))"

section \<open>Dispatch\<close>

text \<open>The three aggregator objects of \<open>calculate_statistics\<close> and their \<open>__call__\<close>.\<close>

datatype MetricStats = BaseStatsRatio | BaseStatsBernoulli | BaseStatsUserLevel

fun MetricStats_call :: "MetricStats \<Rightarrow> 'v dataframe \<Rightarrow> (py_error + Statistics) \<times> 'v dataframe" where
  "MetricStats_call BaseStatsRatio df = BaseStatsRatio_call df"
| "MetricStats_call BaseStatsBernoulli df = BaseStatsBernoulli_call df"
| "MetricStats_call BaseStatsUserLevel df = BaseStatsUserLevel_call df"

definition mappings :: "string \<Rightarrow> MetricStats option" where
  "mappings = [''ratio'' \<mapsto> BaseStatsRatio,
               ''bernoulli'' \<mapsto> BaseStatsBernoulli,
               ''user-level'' \<mapsto> BaseStatsUserLevel]"

text \<open>\<open>calculate_statistics\<close>: \<open>mappings[type]\<close> raises \<open>KeyError\<close> on a key the
  dictionary does not hold, before the frame is touched.\<close>

definition calculate_statistics ::
  "'v dataframe \<Rightarrow> string \<Rightarrow> (py_error + Statistics) \<times> 'v dataframe" where
  "calculate_statistics df type =
     (case mappings type of
        None \<Rightarrow> (Inl (KeyError type), df)
      | Some calculate_method \<Rightarrow> MetricStats_call calculate_method df)"

section \<open>Estimators\<close>

text \<open>
  The three hypothesis tests (\<open>scipy.stats.ttest_ind_from_stats\<close>,
  \<open>scipy.stats.mannwhitneyu\<close>, \<open>statsmodels\<close>' \<open>proportions_ztest\<close>) and \<open>np.sqrt\<close> are
  library code: each estimator takes them as parameters. A test either raises an
  exception (\<open>Inl\<close>; a subclass of \<open>Exception\<close>, which is what \<open>except Exception\<close>
  catches) or returns the pair \<open>(statistic, pvalue)\<close> of floats of the library's type
  \<open>'f\<close>. The logger \<open>cfg.logger\<close> is the list of the errors logged so far. The result of
  an estimator is \<open>Inr\<close> of the value it returns, or \<open>Inl\<close> of an exception that leaves
  it. \<open>stat.num_0.sum()\<close> is \<open>Series.sum\<close>, which wraps as \<open>np.sum\<close> does.
\<close>

definition TTestFromStats_call ::
  "(pyfloat \<Rightarrow> 's) \<Rightarrow> (pyfloat \<Rightarrow> 's \<Rightarrow> rat \<Rightarrow> pyfloat \<Rightarrow> 's \<Rightarrow> rat \<Rightarrow> 'e + 'f \<times> 'f) \<Rightarrow>
   Statistics \<Rightarrow> 'e list \<Rightarrow> ('e + 'f EstimatorCriteriaValues) \<times> 'e list" where
  "TTestFromStats_call np_sqrt ttest_ind_from_stats stat logger =
     (case ttest_ind_from_stats (mean_0 stat) (np_sqrt (var_0 stat)) (n_0 stat)
                                (mean_1 stat) (np_sqrt (var_1 stat)) (n_1 stat) of
        Inl e \<Rightarrow> (Inr \<lparr>pvalue = None, statistic = None\<rparr>, logger @ [e])
      | Inr (s, p) \<Rightarrow> (Inr \<lparr>pvalue = Some p, statistic = Some s\<rparr>, logger))"

definition MannWhitney_call ::
  "(rat list \<Rightarrow> rat list \<Rightarrow> 'e + 'f \<times> 'f) \<Rightarrow>
   Statistics \<Rightarrow> 'e list \<Rightarrow> ('e + 'f EstimatorCriteriaValues) \<times> 'e list" where
  "MannWhitney_call mannwhitneyu stat logger =
     (case mannwhitneyu (num_0 stat) (num_1 stat) of
        Inl e \<Rightarrow> (Inr \<lparr>pvalue = None, statistic = None\<rparr>, logger @ [e])
      | Inr (s, p) \<Rightarrow> (Inr \<lparr>pvalue = Some p, statistic = Some s\<rparr>, logger))"

definition ProportionsZtest_call ::
  "(rat list \<Rightarrow> rat list \<Rightarrow> 'e + 'f \<times> 'f) \<Rightarrow>
   Statistics \<Rightarrow> 'e list \<Rightarrow> ('e + 'f EstimatorCriteriaValues) \<times> 'e list" where
  "ProportionsZtest_call proportions_ztest stat logger =
     (case proportions_ztest [np_sum (num_dtype stat, num_0 stat), np_sum (num_dtype stat, num_1 stat)]
                             [n_0 stat, n_1 stat] of
        Inl e \<Rightarrow> (Inr \<lparr>pvalue = None, statistic = None\<rparr>, logger @ [e])
      | Inr (s, p) \<Rightarrow> (Inr \<lparr>pvalue = Some p, statistic = Some s\<rparr>, logger))"

section \<open>Example data\<close>

text \<open>Scenario C of the specification: three rows \<open>(num = 10, den = 5, n = 1)\<close> of the
  first variant, three rows \<open>(num = 20, den = 5, n = 1)\<close> of the second. The example
  frames hold integers in \<open>int64\<close> columns.\<close>

definition mk_row :: "'v \<Rightarrow> rat \<Rightarrow> rat \<Rightarrow> rat \<Rightarrow> 'v row" where
  "mk_row v a b c = \<lparr>col_variant = v, col_num = a, col_den = b, col_n = c\<rparr>"

definition scenario_C :: "string dataframe" where
  "scenario_C =
     \<lparr>rows = [mk_row ''A'' 10 5 1, mk_row ''A'' 10 5 1, mk_row ''A'' 10 5 1,
              mk_row ''B'' 20 5 1, mk_row ''B'' 20 5 1, mk_row ''B'' 20 5 1],
      l_ratio = None, col_num_dtype = Int64, col_den_dtype = Int64\<rparr>"

text \<open>A frame whose denominators equal the unit counts in every row, with the rows of
  the two variants interleaved.\<close>

definition unit_den_frame :: "string dataframe" where
  "unit_den_frame =
     \<lparr>rows = [mk_row ''A'' 3 1 1, mk_row ''B'' 4 2 2, mk_row ''A'' 5 1 1],
      l_ratio = None, col_num_dtype = Int64, col_den_dtype = Int64\<rparr>"

text \<open>A frame with a pre-aggregated row of two units and a row of none.\<close>

definition zero_count_frame :: "string dataframe" where
  "zero_count_frame =
     \<lparr>rows = [mk_row ''A'' 1 1 2, mk_row ''A'' 2 1 0, mk_row ''B'' 3 1 1, mk_row ''B'' 4 1 1],
      l_ratio = None, col_num_dtype = Int64, col_den_dtype = Int64\<rparr>"

text \<open>A record of two single observations, and the same record with other moments,
  counts and denominators.\<close>

definition single_obs_stat :: Statistics where
  "single_obs_stat =
     \<lparr>mean_0 = Finite 1, mean_1 = Finite 2, var_0 = NonFinite, var_1 = NonFinite,
      n_0 = 1, n_1 = 1, num_0 = [1], num_1 = [2], den_0 = None, den_1 = None,
      num_dtype = Int64\<rparr>"

definition other_moments_stat :: Statistics where
  "other_moments_stat =
     \<lparr>mean_0 = Finite 7, mean_1 = NonFinite, var_0 = Finite 3, var_1 = Finite 0,
      n_0 = 50, n_1 = 0, num_0 = [1], num_1 = [2], den_0 = Some [4], den_1 = Some [9],
      num_dtype = Int64\<rparr>"


text \<open>Two frames that differ in the unit count of the first row only: in the first
  every row has \<open>den = n\<close>, in the second the first row has not.\<close>

definition den_is_n_frame :: "string dataframe" where
  "den_is_n_frame =
     \<lparr>rows = [mk_row ''A'' 2 1 1, mk_row ''A'' 4 2 2, mk_row ''B'' 3 1 1, mk_row ''B'' 5 1 1],
      l_ratio = None, col_num_dtype = Int64, col_den_dtype = Int64\<rparr>"

definition den_not_n_frame :: "string dataframe" where
  "den_not_n_frame =
     \<lparr>rows = [mk_row ''A'' 2 1 3, mk_row ''A'' 4 2 2, mk_row ''B'' 3 1 1, mk_row ''B'' 5 1 1],
      l_ratio = None, col_num_dtype = Int64, col_den_dtype = Int64\<rparr>"

section \<open>Auxiliary facts\<close>

lemma unique_acc_distinct_start: "distinct seen \<Longrightarrow> distinct (unique_acc seen xs)"
  by (induction xs arbitrary: seen) auto

lemma set_unique_acc: "set (unique_acc seen xs) = set seen \<union> set xs"
  by (induction xs arbitrary: seen) auto

lemma set_unique: "set (unique xs) = set xs"
  by (simp add: unique_def set_unique_acc)

lemma distinct_unique: "distinct (unique xs)"
  by (simp add: unique_def unique_acc_distinct_start)

text \<open>In a frame of exactly two variants the two differ and every row has one of them.\<close>

lemma unique_two:
  assumes "unique (map col_variant rs) = [v0, v1]"
  shows "v0 \<noteq> v1" and "\<forall>r\<in>set rs. col_variant r = v0 \<or> col_variant r = v1"
proof -
  from distinct_unique [of "map col_variant rs"] assms show "v0 \<noteq> v1" by simp
  from set_unique [of "map col_variant rs"] assms have "col_variant ` set rs = {v0, v1}" by simp
  then show "\<forall>r\<in>set rs. col_variant r = v0 \<or> col_variant r = v1" by auto
qed

text \<open>A masked assignment of one value per masked row, computed from the row.\<close>

lemma loc_assign_masked:
  "length cs = length rs \<Longrightarrow>
   loc_assign (map P rs) cs (map f (filter P rs)) = map (\<lambda>(r, c). if P r then f r else c) (zip rs cs)"
proof (induction rs arbitrary: cs)
  case Nil
  then show ?case by simp
next
  case (Cons r rs)
  then obtain c cs' where "cs = c # cs'" by (cases cs) auto
  with Cons show ?case by simp
qed

lemma two_assign:
  "\<forall>r\<in>set rs. P r \<or> Q r \<Longrightarrow> length cs = length rs \<Longrightarrow>
   map (\<lambda>(r, c). if Q r then g r else c) (zip rs (map (\<lambda>(r, c). if P r then f r else c) (zip rs cs)))
   = map (\<lambda>r. if Q r then g r else f r) rs"
proof (induction rs arbitrary: cs)
  case Nil
  then show ?case by simp
next
  case (Cons r rs)
  then obtain c cs' where "cs = c # cs'" by (cases cs) auto
  with Cons show ?case by auto
qed

lemma rows_set_l_ratio: "rows (set_l_ratio df v vs) = rows df"
  by (simp add: set_l_ratio_def)

lemma set_l_ratio_masked:
  assumes "l_ratio df = Some cs" and "length cs = length (rows df)"
  shows "set_l_ratio df v (map f (filter (\<lambda>r. col_variant r = v) (rows df)))
         = df\<lparr>l_ratio := Some (map (\<lambda>(r, c). if col_variant r = v then f r else c) (zip (rows df) cs))\<rparr>"
  using assms loc_assign_masked [of cs "rows df" "\<lambda>r. col_variant r = v" f]
  by (simp add: set_l_ratio_def l_ratio_cells_def)

text \<open>Zeroing the column and filling it for both variants of a two-variant frame fills
  every row.\<close>

lemma fill_both:
  assumes U: "unique (map col_variant (rows df)) = [v0, v1]"
  shows "set_l_ratio
           (set_l_ratio (df\<lparr>l_ratio := Some (replicate (length (rows df)) (Finite 0))\<rparr>) v0
              (map f (filter (\<lambda>r. col_variant r = v0) (rows df))))
           v1 (map f (filter (\<lambda>r. col_variant r = v1) (rows df)))
         = df\<lparr>l_ratio := Some (map f (rows df))\<rparr>"
proof -
  let ?z = "replicate (length (rows df)) (Finite 0)"
  let ?df1 = "df\<lparr>l_ratio := Some ?z\<rparr>"
  let ?c1 = "map (\<lambda>(r, c). if col_variant r = v0 then f r else c) (zip (rows df) ?z)"
  have s1: "set_l_ratio ?df1 v0 (map f (filter (\<lambda>r. col_variant r = v0) (rows df)))
            = df\<lparr>l_ratio := Some ?c1\<rparr>"
    using set_l_ratio_masked [of ?df1 ?z v0 f] by simp
  have s2: "set_l_ratio (df\<lparr>l_ratio := Some ?c1\<rparr>) v1 (map f (filter (\<lambda>r. col_variant r = v1) (rows df)))
            = df\<lparr>l_ratio := Some (map (\<lambda>(r, c). if col_variant r = v1 then f r else c) (zip (rows df) ?c1))\<rparr>"
    using set_l_ratio_masked [of "df\<lparr>l_ratio := Some ?c1\<rparr>" ?c1 v1 f] by simp
  have cover: "\<forall>r\<in>set (rows df). col_variant r = v0 \<or> col_variant r = v1"
    using unique_two(2) [OF U] .
  have "map (\<lambda>(r, c). if col_variant r = v1 then f r else c) (zip (rows df) ?c1)
        = map (\<lambda>r. if col_variant r = v1 then f r else f r) (rows df)"
    using two_assign [OF cover, of ?z f f] by simp
  then show ?thesis using s1 s2 by simp
qed

lemma calc_lin_skip:
  assumes U: "unique (map col_variant (rows df)) = [v0, v1]"
    and A: "list_all (\<lambda>r. col_den r = col_n r) (rows df)"
  shows "calculate_linearization df
         = (Inr (), df\<lparr>l_ratio := Some (map (\<lambda>r. Finite (col_num r)) (rows df))\<rparr>)"
  using fill_both [OF U, of "\<lambda>r. Finite (col_num r)"] U A
  by (simp add: calculate_linearization_def get_item_def masked_def Let_def comp_def
      rows_set_l_ratio)

lemma calc_lin_active:
  assumes U: "unique (map col_variant (rows df)) = [v0, v1]"
    and A: "\<not> list_all (\<lambda>r. col_den r = col_n r) (rows df)"
  shows "calculate_linearization df
         = (Inr (), df\<lparr>l_ratio := Some (map (\<lambda>r. linearize
               (pooled_ratio (col_num_dtype df, masked col_num v0 (rows df))
                             (col_den_dtype df, masked col_den v0 (rows df)))
               (col_num r) (col_den r)) (rows df))\<rparr>)"
  using fill_both [OF U, of "\<lambda>r. linearize
               (pooled_ratio (col_num_dtype df, masked col_num v0 (rows df))
                             (col_den_dtype df, masked col_den v0 (rows df)))
               (col_num r) (col_den r)"] U A
  by (simp add: calculate_linearization_def get_item_def masked_def Linearization_call_def
      Let_def zip_map_map comp_def case_prod_unfold zip_same_conv_map rows_set_l_ratio)

lemma masked_l_ratio_map:
  assumes "l_ratio df = Some (map f (rows df))"
  shows "masked_l_ratio df v = map f (filter (\<lambda>r. col_variant r = v) (rows df))"
proof -
  have "map snd (filter (\<lambda>(r, l). P r) (zip rs (map f rs))) = map f (filter P rs)" for P and rs :: "'a row list"
    by (induction rs) auto
  with assms show ?thesis by (simp add: masked_l_ratio_def l_ratio_cells_def)
qed

lemma scenario_C_variants: "unique (map col_variant (rows scenario_C)) = [''A'', ''B'']"
  by (simp add: scenario_C_def mk_row_def unique_def)

lemma scenario_C_active: "\<not> list_all (\<lambda>r. col_den r = col_n r) (rows scenario_C)"
  by (simp add: scenario_C_def mk_row_def)

lemma calc_lin_two:
  assumes U: "unique (map col_variant (rows df)) = [v0, v1]"
  shows "\<exists>cs. calculate_linearization df = (Inr (), df\<lparr>l_ratio := Some cs\<rparr>)"
proof (cases "list_all (\<lambda>r. col_den r = col_n r) (rows df)")
  case True
  from calc_lin_skip [OF U True] show ?thesis by blast
next
  case False
  from calc_lin_active [OF U False] show ?thesis by blast
qed

lemma calc_lin_frame:
  "rows (snd (calculate_linearization df)) = rows df \<and> l_ratio (snd (calculate_linearization df)) \<noteq> None"
  by (simp add: calculate_linearization_def Let_def rows_set_l_ratio set_l_ratio_def
      split: sum.splits prod.splits)

lemma ratio_call_frame: "snd (BaseStatsRatio_call df) = snd (calculate_linearization df)"
  by (simp add: BaseStatsRatio_call_def Let_def split: sum.splits prod.splits)

text \<open>The three aggregators on a frame of exactly two variants: the result in full.\<close>

lemma ratio_call_two:
  assumes U: "unique (map col_variant (rows df)) = [v0, v1]"
    and D: "df' = snd (calculate_linearization df)"
  shows "BaseStatsRatio_call df =
    (if sum_list (masked col_den v0 (rows df)) = 0 \<or> sum_list (masked col_den v1 (rows df)) = 0
     then (Inl ZeroDivisionError, df')
     else
      (Inr \<lparr>mean_0 = Finite (sum_list (masked col_num v0 (rows df)) / sum_list (masked col_den v0 (rows df))),
            mean_1 = Finite (sum_list (masked col_num v1 (rows df)) / sum_list (masked col_den v1 (rows df))),
            var_0 = series_var (masked_l_ratio df' v0),
            var_1 = series_var (masked_l_ratio df' v1),
            n_0 = sum_list (masked col_n v0 (rows df)),
            n_1 = sum_list (masked col_n v1 (rows df)),
            num_0 = masked col_num v0 (rows df),
            num_1 = masked col_num v1 (rows df),
            den_0 = Some (masked col_den v0 (rows df)),
            den_1 = Some (masked col_den v1 (rows df)),
            num_dtype = col_num_dtype df\<rparr>, df'))"
proof -
  from calc_lin_two [OF U] obtain cs where
    c: "calculate_linearization df = (Inr (), df\<lparr>l_ratio := Some cs\<rparr>)" by blast
  with D have "df' = df\<lparr>l_ratio := Some cs\<rparr>" by simp
  with c U show ?thesis
    by (simp add: BaseStatsRatio_call_def get_item_def py_div_def)
qed

lemma user_level_call_two:
  assumes U: "unique (map col_variant (rows df)) = [v0, v1]"
  shows "BaseStatsUserLevel_call df =
    (Inr \<lparr>mean_0 = Finite (sum_list (masked col_num v0 (rows df))),
          mean_1 = Finite (sum_list (masked col_num v1 (rows df))),
          var_0 = series_var (map Finite (masked col_num v0 (rows df))),
          var_1 = series_var (map Finite (masked col_num v1 (rows df))),
          n_0 = sum_list (masked col_n v0 (rows df)),
          n_1 = sum_list (masked col_n v1 (rows df)),
          num_0 = masked col_num v0 (rows df),
          num_1 = masked col_num v1 (rows df),
          den_0 = None,
          den_1 = None,
          num_dtype = col_num_dtype df\<rparr>, df)"
  using U by (simp add: BaseStatsUserLevel_call_def get_item_def)

lemma bernoulli_call_two:
  assumes U: "unique (map col_variant (rows df)) = [v0, v1]"
  shows "BaseStatsBernoulli_call df =
    (if sum_list (masked col_n v0 (rows df)) = 0 \<or> sum_list (masked col_n v1 (rows df)) = 0
     then (Inl ZeroDivisionError, df)
     else
      (Inr \<lparr>mean_0 = Finite (sum_list (masked col_num v0 (rows df)) / sum_list (masked col_n v0 (rows df))),
            mean_1 = Finite (sum_list (masked col_num v1 (rows df)) / sum_list (masked col_n v1 (rows df))),
            var_0 = series_var (map Finite (masked col_num v0 (rows df))),
            var_1 = series_var (map Finite (masked col_num v1 (rows df))),
            n_0 = sum_list (masked col_n v0 (rows df)),
            n_1 = sum_list (masked col_n v1 (rows df)),
            num_0 = masked col_num v0 (rows df),
            num_1 = masked col_num v1 (rows df),
            den_0 = None,
            den_1 = None,
            num_dtype = col_num_dtype df\<rparr>, df))"
  using U by (simp add: BaseStatsBernoulli_call_def get_item_def Let_def py_div_def)



text \<open>A linearized cell is non-finite exactly when the pooled ratio is: the cells of a
  derived column are all finite or all non-finite, which is what \<open>series_var\<close> relies on.\<close>

lemma linearize_nonfinite: "(linearize k a b = NonFinite) = (k = NonFinite)"
  by (cases k) (simp_all add: linearize_def)

lemma finite_cells_map_Finite: "finite_cells (map Finite qs) = Some qs"
  by (induction qs) auto

lemma series_var_raw: "series_var (map Finite qs) = sample_var qs"
  by (simp add: series_var_def finite_cells_map_Finite)

lemma sum_all_ones: "list_all (\<lambda>x. x = 1) xs \<Longrightarrow> sum_list xs = (of_nat (length xs) :: rat)"
  by (induction xs) auto

lemma sum_ge_length: "list_all (\<lambda>x. 1 \<le> x) xs \<Longrightarrow> (of_nat (length xs) :: rat) \<le> sum_list xs"
  by (induction xs) auto

lemma sum_eq_length_ones:
  "list_all (\<lambda>x. 1 \<le> x) xs \<Longrightarrow> sum_list xs = (of_nat (length xs) :: rat) \<Longrightarrow> list_all (\<lambda>x. x = 1) xs"
proof (induction xs)
  case Nil
  then show ?case by simp
next
  case (Cons x xs)
  from Cons.prems have x: "1 \<le> x" and xs: "list_all (\<lambda>x. 1 \<le> x) xs" by simp_all
  from sum_ge_length [OF xs] have ge: "of_nat (length xs) \<le> sum_list xs" .
  from Cons.prems(2) have "x + sum_list xs = 1 + of_nat (length xs)" by simp
  with x ge have "x = 1" and "sum_list xs = of_nat (length xs)" by linarith+
  with Cons.IH [OF xs] show ?case by simp
qed

lemma unit_den_variants: "unique (map col_variant (rows unit_den_frame)) = [''A'', ''B'']"
  by (simp add: unit_den_frame_def mk_row_def unique_def)

lemma unit_den_skip: "list_all (\<lambda>r. col_den r = col_n r) (rows unit_den_frame)"
  by (simp add: unit_den_frame_def mk_row_def)

lemma scenario_C_k:
  "pooled_ratio (col_num_dtype scenario_C, masked col_num ''A'' (rows scenario_C))
                (col_den_dtype scenario_C, masked col_den ''A'' (rows scenario_C)) = Finite 2"
  by (simp add: scenario_C_def mk_row_def masked_def pooled_ratio_def fdiv_def wrap_int64_def)


lemma user_level_call_frame: "snd (BaseStatsUserLevel_call df) = df"
  by (simp add: BaseStatsUserLevel_call_def Let_def split: sum.splits)

lemma bernoulli_call_frame: "snd (BaseStatsBernoulli_call df) = df"
  by (simp add: BaseStatsBernoulli_call_def Let_def split: sum.splits)

lemma scenario_C_frame_after:
  "snd (BaseStatsRatio_call scenario_C)
     = scenario_C\<lparr>l_ratio := Some [Finite 0, Finite 0, Finite 0, Finite 10, Finite 10, Finite 10]\<rparr>"
proof -
  have whole: "map (\<lambda>r. linearize (Finite 2) (col_num r) (col_den r)) (rows scenario_C)
               = [Finite 0, Finite 0, Finite 0, Finite 10, Finite 10, Finite 10]"
    by (simp add: scenario_C_def mk_row_def linearize_def)
  from calc_lin_active [OF scenario_C_variants scenario_C_active] scenario_C_k whole
    ratio_call_frame [of scenario_C]
  show ?thesis by simp
qed

lemma dispatch_eqs:
  "calculate_statistics df ''ratio'' = BaseStatsRatio_call df"
  "calculate_statistics df ''bernoulli'' = BaseStatsBernoulli_call df"
  "calculate_statistics df ''user-level'' = BaseStatsUserLevel_call df"
  by (simp_all add: calculate_statistics_def mappings_def)

lemma masked_l_ratio_length:
  assumes "l_ratio df = Some cs" and "length cs = length (rows df)"
  shows "length (masked_l_ratio df v) = length (filter (\<lambda>r. col_variant r = v) (rows df))"
proof -
  have "length cs = length rs \<Longrightarrow>
        length (filter (\<lambda>(r, l). P r) (zip rs cs)) = length (filter P rs)" for P and rs :: "'a row list" and cs :: "pyfloat list"
  proof (induction rs arbitrary: cs)
    case Nil
    then show ?case by simp
  next
    case (Cons r rs)
    then obtain c cs' where "cs = c # cs'" by (cases cs) auto
    with Cons show ?case by simp
  qed
  with assms show ?thesis by (simp add: masked_l_ratio_def l_ratio_cells_def)
qed

lemma calc_lin_two_length:
  assumes U: "unique (map col_variant (rows df)) = [v0, v1]"
  shows "length (masked_l_ratio (snd (calculate_linearization df)) v)
         = length (filter (\<lambda>r. col_variant r = v) (rows df))"
proof (cases "list_all (\<lambda>r. col_den r = col_n r) (rows df)")
  case True
  from calc_lin_skip [OF U True] show ?thesis
    by (simp add: masked_l_ratio_length)
next
  case False
  from calc_lin_active [OF U False] show ?thesis
    by (simp add: masked_l_ratio_length)
qed

lemma zero_count_variants: "unique (map col_variant (rows zero_count_frame)) = [''A'', ''B'']"
  by (simp add: zero_count_frame_def mk_row_def unique_def)

lemma scenario_C_sums:
  "sum_list (masked col_den ''A'' (rows scenario_C)) = 15"
  "sum_list (masked col_den ''B'' (rows scenario_C)) = 15"
  "sum_list (masked col_n ''A'' (rows scenario_C)) = 3"
  "sum_list (masked col_n ''B'' (rows scenario_C)) = 3"
  by (simp_all add: scenario_C_def mk_row_def masked_def)




lemma filter_variant_cong:
  "map col_variant rs = map col_variant rs' \<Longrightarrow> map g rs = map g rs' \<Longrightarrow>
   map g (filter (\<lambda>r. col_variant r = v) rs) = map g (filter (\<lambda>r. col_variant r = v) rs')"
proof (induction rs arbitrary: rs')
  case Nil
  then show ?case by simp
next
  case (Cons r rs)
  then obtain r' rs'' where "rs' = r' # rs''" by (cases rs') auto
  with Cons show ?case by auto
qed

lemma masked_cong:
  "map col_variant rs = map col_variant rs' \<Longrightarrow> map c rs = map c rs' \<Longrightarrow>
   masked c v rs = masked c v rs'"
  unfolding masked_def by (rule filter_variant_cong)

lemma map_num_den_cong:
  "map col_num rs = map col_num rs' \<Longrightarrow> map col_den rs = map col_den rs' \<Longrightarrow>
   map (\<lambda>r. h (col_num r) (col_den r)) rs = map (\<lambda>r. h (col_num r) (col_den r)) rs'"
proof (induction rs arbitrary: rs')
  case Nil
  then show ?case by simp
next
  case (Cons r rs)
  then obtain r' rs'' where "rs' = r' # rs''" by (cases rs') auto
  with Cons show ?case by auto
qed

lemma ratio_cells_two:
  assumes U: "unique (map col_variant (rows df)) = [v0, v1]"
  shows "masked_l_ratio (snd (calculate_linearization df)) v =
    (if list_all (\<lambda>r. col_den r = col_n r) (rows df)
     then map (\<lambda>r. Finite (col_num r)) (filter (\<lambda>r. col_variant r = v) (rows df))
     else map (\<lambda>r. linearize
                 (pooled_ratio (col_num_dtype df, masked col_num v0 (rows df))
                               (col_den_dtype df, masked col_den v0 (rows df)))
                 (col_num r) (col_den r))
            (filter (\<lambda>r. col_variant r = v) (rows df)))"
proof (cases "list_all (\<lambda>r. col_den r = col_n r) (rows df)")
  case True
  let ?f = "\<lambda>r. Finite (col_num r)"
  from calc_lin_skip [OF U True]
    masked_l_ratio_map [of "df\<lparr>l_ratio := Some (map ?f (rows df))\<rparr>" ?f v] True
  show ?thesis by simp
next
  case False
  let ?f = "\<lambda>r. linearize
                 (pooled_ratio (col_num_dtype df, masked col_num v0 (rows df))
                               (col_den_dtype df, masked col_den v0 (rows df)))
                 (col_num r) (col_den r)"
  from calc_lin_active [OF U False]
    masked_l_ratio_map [of "df\<lparr>l_ratio := Some (map ?f (rows df))\<rparr>" ?f v] False
  show ?thesis by simp
qed

lemma ratio_cells_cong:
  assumes U: "unique (map col_variant (rows df)) = [v0, v1]"
    and V: "map col_variant (rows df2) = map col_variant (rows df)"
    and N: "map col_num (rows df2) = map col_num (rows df)"
    and D: "map col_den (rows df2) = map col_den (rows df)"
    and T: "col_num_dtype df2 = col_num_dtype df" "col_den_dtype df2 = col_den_dtype df"
    and P: "list_all (\<lambda>r. col_den r = col_n r) (rows df2)
            = list_all (\<lambda>r. col_den r = col_n r) (rows df)"
  shows "masked_l_ratio (snd (calculate_linearization df2)) v
         = masked_l_ratio (snd (calculate_linearization df)) v"
proof -
  from U V have U2: "unique (map col_variant (rows df2)) = [v0, v1]" by simp
  have k: "pooled_ratio (col_num_dtype df2, masked col_num v0 (rows df2))
                        (col_den_dtype df2, masked col_den v0 (rows df2))
           = pooled_ratio (col_num_dtype df, masked col_num v0 (rows df))
                          (col_den_dtype df, masked col_den v0 (rows df))"
    using T masked_cong [OF V N] masked_cong [OF V D] by simp
  have a: "map (\<lambda>r. h (col_num r) (col_den r)) (filter (\<lambda>r. col_variant r = v) (rows df2))
           = map (\<lambda>r. h (col_num r) (col_den r)) (filter (\<lambda>r. col_variant r = v) (rows df))" for h :: "rat \<Rightarrow> rat \<Rightarrow> pyfloat"
    by (rule filter_variant_cong [OF V map_num_den_cong [OF N D]])
  from a [of "\<lambda>x y. Finite x"] a [of "linearize (pooled_ratio (col_num_dtype df, masked col_num v0 (rows df))
                          (col_den_dtype df, masked col_den v0 (rows df)))"]
  show ?thesis
    by (simp add: ratio_cells_two [OF U] ratio_cells_two [OF U2] k P)
qed

lemma call_two_fields:
  assumes U: "unique (map col_variant (rows df)) = [v0, v1]"
    and R: "MetricStats_call agg df = (Inr s, df')"
  shows "n_0 s = sum_list (masked col_n v0 (rows df))"
    and "n_1 s = sum_list (masked col_n v1 (rows df))"
    and "num_0 s = masked col_num v0 (rows df)"
    and "num_1 s = masked col_num v1 (rows df)"
    and "agg \<noteq> BaseStatsRatio \<Longrightarrow> var_0 s = sample_var (masked col_num v0 (rows df))"
    and "agg \<noteq> BaseStatsRatio \<Longrightarrow> var_1 s = sample_var (masked col_num v1 (rows df))"
    and "agg = BaseStatsRatio \<Longrightarrow> df' = snd (calculate_linearization df)"
    and "agg = BaseStatsRatio \<Longrightarrow>
           var_0 s = series_var (masked_l_ratio (snd (calculate_linearization df)) v0)"
    and "agg = BaseStatsRatio \<Longrightarrow>
           var_1 s = series_var (masked_l_ratio (snd (calculate_linearization df)) v1)"
proof -
  have "n_0 s = sum_list (masked col_n v0 (rows df))
      \<and> n_1 s = sum_list (masked col_n v1 (rows df))
      \<and> num_0 s = masked col_num v0 (rows df)
      \<and> num_1 s = masked col_num v1 (rows df)
      \<and> (agg \<noteq> BaseStatsRatio \<longrightarrow> var_0 s = sample_var (masked col_num v0 (rows df))
            \<and> var_1 s = sample_var (masked col_num v1 (rows df)))
      \<and> (agg = BaseStatsRatio \<longrightarrow> df' = snd (calculate_linearization df)
            \<and> var_0 s = series_var (masked_l_ratio (snd (calculate_linearization df)) v0)
            \<and> var_1 s = series_var (masked_l_ratio (snd (calculate_linearization df)) v1))"
  proof (cases agg)
    case BaseStatsRatio
    with R ratio_call_two [OF U refl] show ?thesis
      by (auto split: if_splits)
  next
    case BaseStatsBernoulli
    with R bernoulli_call_two [OF U] show ?thesis
      by (auto simp: series_var_raw split: if_splits)
  next
    case BaseStatsUserLevel
    with R user_level_call_two [OF U] show ?thesis
      by (auto simp: series_var_raw)
  qed
  then show "n_0 s = sum_list (masked col_n v0 (rows df))"
    and "n_1 s = sum_list (masked col_n v1 (rows df))"
    and "num_0 s = masked col_num v0 (rows df)"
    and "num_1 s = masked col_num v1 (rows df)"
    and "agg \<noteq> BaseStatsRatio \<Longrightarrow> var_0 s = sample_var (masked col_num v0 (rows df))"
    and "agg \<noteq> BaseStatsRatio \<Longrightarrow> var_1 s = sample_var (masked col_num v1 (rows df))"
    and "agg = BaseStatsRatio \<Longrightarrow> df' = snd (calculate_linearization df)"
    and "agg = BaseStatsRatio \<Longrightarrow>
           var_0 s = series_var (masked_l_ratio (snd (calculate_linearization df)) v0)"
    and "agg = BaseStatsRatio \<Longrightarrow>
           var_1 s = series_var (masked_l_ratio (snd (calculate_linearization df)) v1)"
    by blast+
qed

lemma den_is_n_variants: "unique (map col_variant (rows den_is_n_frame)) = [''A'', ''B'']"
  by (simp add: den_is_n_frame_def mk_row_def unique_def)

lemma den_not_n_variants: "unique (map col_variant (rows den_not_n_frame)) = [''A'', ''B'']"
  by (simp add: den_not_n_frame_def mk_row_def unique_def)

lemma den_is_n_result:
  "BaseStatsRatio_call den_is_n_frame
     = (Inr \<lparr>mean_0 = Finite 2, mean_1 = Finite 4, var_0 = Finite 2, var_1 = Finite 2,
             n_0 = 3, n_1 = 2, num_0 = [2, 4], num_1 = [3, 5],
             den_0 = Some [1, 2], den_1 = Some [1, 1], num_dtype = Int64\<rparr>,
        snd (calculate_linearization den_is_n_frame))"
proof -
  have m: "masked col_num ''A'' (rows den_is_n_frame) = [2, 4]"
    "masked col_num ''B'' (rows den_is_n_frame) = [3, 5]"
    "masked col_den ''A'' (rows den_is_n_frame) = [1, 2]"
    "masked col_den ''B'' (rows den_is_n_frame) = [1, 1]"
    "masked col_n ''A'' (rows den_is_n_frame) = [1, 2]"
    "masked col_n ''B'' (rows den_is_n_frame) = [1, 1]"
    "col_num_dtype den_is_n_frame = Int64"
    by (simp_all add: den_is_n_frame_def mk_row_def masked_def)
  have l: "masked_l_ratio (snd (calculate_linearization den_is_n_frame)) ''A'' = [Finite 2, Finite 4]"
    "masked_l_ratio (snd (calculate_linearization den_is_n_frame)) ''B'' = [Finite 3, Finite 5]"
    by (simp_all add: ratio_cells_two [OF den_is_n_variants])
      (simp_all add: den_is_n_frame_def mk_row_def)
  have v: "series_var [Finite 2, Finite 4] = Finite 2" "series_var [Finite 3, Finite 5] = Finite 2"
    by (simp_all add: series_var_def sample_var_def Let_def)
  from ratio_call_two [OF den_is_n_variants refl] show ?thesis
    by (simp add: m l v)
qed

lemma den_not_n_result:
  "BaseStatsRatio_call den_not_n_frame
     = (Inr \<lparr>mean_0 = Finite 2, mean_1 = Finite 4, var_0 = Finite 0, var_1 = Finite 2,
             n_0 = 5, n_1 = 2, num_0 = [2, 4], num_1 = [3, 5],
             den_0 = Some [1, 2], den_1 = Some [1, 1], num_dtype = Int64\<rparr>,
        snd (calculate_linearization den_not_n_frame))"
proof -
  have m: "masked col_num ''A'' (rows den_not_n_frame) = [2, 4]"
    "masked col_num ''B'' (rows den_not_n_frame) = [3, 5]"
    "masked col_den ''A'' (rows den_not_n_frame) = [1, 2]"
    "masked col_den ''B'' (rows den_not_n_frame) = [1, 1]"
    "masked col_n ''A'' (rows den_not_n_frame) = [3, 2]"
    "masked col_n ''B'' (rows den_not_n_frame) = [1, 1]"
    "col_num_dtype den_not_n_frame = Int64"
    "col_den_dtype den_not_n_frame = Int64"
    by (simp_all add: den_not_n_frame_def mk_row_def masked_def)
  have k: "pooled_ratio (Int64, [2, 4]) (Int64, [1, 2]) = Finite 2"
    by (simp add: pooled_ratio_def fdiv_def wrap_int64_def)
  have l: "masked_l_ratio (snd (calculate_linearization den_not_n_frame)) ''A'' = [Finite 0, Finite 0]"
    "masked_l_ratio (snd (calculate_linearization den_not_n_frame)) ''B'' = [Finite 1, Finite 3]"
    by (simp_all add: ratio_cells_two [OF den_not_n_variants] m k)
      (simp_all add: den_not_n_frame_def mk_row_def linearize_def)
  have v: "series_var [Finite 0, Finite 0] = Finite 0" "series_var [Finite 1, Finite 3] = Finite 2"
    by (simp_all add: series_var_def sample_var_def Let_def)
  from ratio_call_two [OF den_not_n_variants refl] show ?thesis
    by (simp add: m l v)
qed

section \<open>Linearization of ratio metrics\<close>




section \<open>The skip path\<close>

text \<open>
  Claim C2. On a frame of exactly two variants in which every row has \<open>den = n\<close>, no
  pooled ratio is computed and the derived column \<open>l_ratio\<close> that the ratio aggregation
  leaves is the column \<open>num\<close>, row by row, for both variants.
\<close>

theorem skip_path_l_ratio_is_num:
  assumes "unique (map col_variant (rows df)) = [v0, v1]"
    and "list_all (\<lambda>r. col_den r = col_n r) (rows df)"
  shows "calculate_linearization df
           = (Inr (), df\<lparr>l_ratio := Some (map (\<lambda>r. Finite (col_num r)) (rows df))\<rparr>)
         \<and> snd (BaseStatsRatio_call df) = df\<lparr>l_ratio := Some (map (\<lambda>r. Finite (col_num r)) (rows df))\<rparr>
         \<and> masked_l_ratio (snd (BaseStatsRatio_call df)) v0 = map Finite (masked col_num v0 (rows df))
         \<and> masked_l_ratio (snd (BaseStatsRatio_call df)) v1 = map Finite (masked col_num v1 (rows df))"
  using calc_lin_skip [OF assms] ratio_call_frame [of df]
    masked_l_ratio_map [of "df\<lparr>l_ratio := Some (map (\<lambda>r. Finite (col_num r)) (rows df))\<rparr>" "\<lambda>r. Finite (col_num r)"]
  by (simp add: masked_def comp_def)

theorem skip_path_l_ratio_is_num_witness:
  "unique (map col_variant (rows unit_den_frame)) = [''A'', ''B'']
   \<and> list_all (\<lambda>r. col_den r = col_n r) (rows unit_den_frame)
   \<and> map col_num (rows unit_den_frame) = [3, 4, 5]
   \<and> snd (BaseStatsRatio_call unit_den_frame) = unit_den_frame\<lparr>l_ratio := Some [Finite 3, Finite 4, Finite 5]\<rparr>"
proof -
  have cells: "map (\<lambda>r. Finite (col_num r)) (rows unit_den_frame) = [Finite 3, Finite 4, Finite 5]"
    by (simp add: unit_den_frame_def mk_row_def)
  have nums: "map col_num (rows unit_den_frame) = [3, 4, 5]"
    by (simp add: unit_den_frame_def mk_row_def)
  note t = skip_path_l_ratio_is_num [OF unit_den_variants unit_den_skip]
  have "snd (BaseStatsRatio_call unit_den_frame) = unit_den_frame\<lparr>l_ratio := Some [Finite 3, Finite 4, Finite 5]\<rparr>"
    using t [THEN conjunct2, THEN conjunct1] cells by simp
  with unit_den_variants unit_den_skip nums show ?thesis by blast
qed

section \<open>Means of ratio metrics\<close>

text \<open>
  Claim C3. On a frame of exactly two variants whose denominator sums are both non-zero,
  the ratio aggregator returns a record with \<open>mean_i = sum(num_i) / sum(den_i)\<close> for each
  variant. Nothing is assumed about the column \<open>n\<close>, so the value is the same on the
  linearization path and on the skip path.
\<close>

theorem ratio_mean_invariant:
  assumes "unique (map col_variant (rows df)) = [v0, v1]"
    and "sum_list (masked col_den v0 (rows df)) \<noteq> 0"
    and "sum_list (masked col_den v1 (rows df)) \<noteq> 0"
  shows "\<exists>s df'. BaseStatsRatio_call df = (Inr s, df')
           \<and> mean_0 s = Finite (sum_list (masked col_num v0 (rows df)) / sum_list (masked col_den v0 (rows df)))
           \<and> mean_1 s = Finite (sum_list (masked col_num v1 (rows df)) / sum_list (masked col_den v1 (rows df)))"
  using ratio_call_two [OF assms(1) refl] assms(2,3) by simp

theorem ratio_mean_invariant_witness:
  "(\<not> list_all (\<lambda>r. col_den r = col_n r) (rows scenario_C)
    \<and> (\<exists>s df'. BaseStatsRatio_call scenario_C = (Inr s, df') \<and> mean_0 s = Finite 2 \<and> mean_1 s = Finite 4))
   \<and> (list_all (\<lambda>r. col_den r = col_n r) (rows unit_den_frame)
    \<and> (\<exists>s df'. BaseStatsRatio_call unit_den_frame = (Inr s, df') \<and> mean_0 s = Finite 4 \<and> mean_1 s = Finite 2))"
proof -
  have a: "sum_list (masked col_den ''A'' (rows scenario_C)) = 15"
    "sum_list (masked col_den ''B'' (rows scenario_C)) = 15"
    "sum_list (masked col_num ''A'' (rows scenario_C)) = 30"
    "sum_list (masked col_num ''B'' (rows scenario_C)) = 60"
    by (simp_all add: scenario_C_def mk_row_def masked_def)
  have b: "sum_list (masked col_den ''A'' (rows unit_den_frame)) = 2"
    "sum_list (masked col_den ''B'' (rows unit_den_frame)) = 2"
    "sum_list (masked col_num ''A'' (rows unit_den_frame)) = 8"
    "sum_list (masked col_num ''B'' (rows unit_den_frame)) = 4"
    by (simp_all add: unit_den_frame_def mk_row_def masked_def)
  have "\<exists>s df'. BaseStatsRatio_call scenario_C = (Inr s, df') \<and> mean_0 s = Finite 2 \<and> mean_1 s = Finite 4"
    using ratio_mean_invariant [OF scenario_C_variants] a by simp
  moreover have "\<exists>s df'. BaseStatsRatio_call unit_den_frame = (Inr s, df') \<and> mean_0 s = Finite 4 \<and> mean_1 s = Finite 2"
    using ratio_mean_invariant [OF unit_den_variants] b by simp
  ultimately show ?thesis using scenario_C_active unit_den_skip by blast
qed

section \<open>Statistics records\<close>

text \<open>
  Claim C8. A record produced under the label \<open>ratio\<close> holds the denominators of the
  rows of the first and of the second variant in \<open>den_0\<close> and \<open>den_1\<close>; a record
  produced under \<open>bernoulli\<close> or \<open>user-level\<close> has both fields unset.
\<close>

theorem den_fields_by_metric_type:
  "(calculate_statistics df ''ratio'' = (Inr s, df') \<longrightarrow>
      (\<exists>v0 v1. get_item (unique (map col_variant (rows df))) 0 = Inr v0
         \<and> get_item (unique (map col_variant (rows df))) 1 = Inr v1
         \<and> den_0 s = Some (masked col_den v0 (rows df))
         \<and> den_1 s = Some (masked col_den v1 (rows df))))
   \<and> (calculate_statistics df ''bernoulli'' = (Inr s, df') \<longrightarrow> den_0 s = None \<and> den_1 s = None)
   \<and> (calculate_statistics df ''user-level'' = (Inr s, df') \<longrightarrow> den_0 s = None \<and> den_1 s = None)"
proof (intro conjI impI)
  assume "calculate_statistics df ''ratio'' = (Inr s, df')"
  then have r: "BaseStatsRatio_call df = (Inr s, df')"
    by (simp add: calculate_statistics_def mappings_def)
  have "rows (snd (calculate_linearization df)) = rows df" using calc_lin_frame by blast
  with r show "\<exists>v0 v1. get_item (unique (map col_variant (rows df))) 0 = Inr v0
         \<and> get_item (unique (map col_variant (rows df))) 1 = Inr v1
         \<and> den_0 s = Some (masked col_den v0 (rows df))
         \<and> den_1 s = Some (masked col_den v1 (rows df))"
    by (auto simp: BaseStatsRatio_call_def Let_def split: sum.splits prod.splits)
next
  assume "calculate_statistics df ''bernoulli'' = (Inr s, df')"
  then have "BaseStatsBernoulli_call df = (Inr s, df')"
    by (simp add: calculate_statistics_def mappings_def)
  then show "den_0 s = None" and "den_1 s = None"
    by (auto simp: BaseStatsBernoulli_call_def Let_def split: sum.splits)
next
  assume "calculate_statistics df ''user-level'' = (Inr s, df')"
  then have "BaseStatsUserLevel_call df = (Inr s, df')"
    by (simp add: calculate_statistics_def mappings_def)
  then show "den_0 s = None" and "den_1 s = None"
    by (auto simp: BaseStatsUserLevel_call_def Let_def split: sum.splits)
qed

theorem den_fields_by_metric_type_witness:
  "(\<exists>s df'. calculate_statistics scenario_C ''ratio'' = (Inr s, df')
       \<and> den_0 s = Some [5, 5, 5] \<and> den_1 s = Some [5, 5, 5])
   \<and> (\<exists>s df'. calculate_statistics scenario_C ''bernoulli'' = (Inr s, df')
       \<and> den_0 s = None \<and> den_1 s = None)
   \<and> (\<exists>s df'. calculate_statistics scenario_C ''user-level'' = (Inr s, df')
       \<and> den_0 s = None \<and> den_1 s = None)"
proof -
  have g: "get_item (unique (map col_variant (rows scenario_C))) 0 = Inr ''A''"
    "get_item (unique (map col_variant (rows scenario_C))) 1 = Inr ''B''"
    by (simp_all add: scenario_C_variants get_item_def)
  have d: "masked col_den ''A'' (rows scenario_C) = [5, 5, 5]"
    "masked col_den ''B'' (rows scenario_C) = [5, 5, 5]"
    by (simp_all add: scenario_C_def mk_row_def masked_def)
  from ratio_call_two [OF scenario_C_variants refl] obtain s1 f1 where
    r: "calculate_statistics scenario_C ''ratio'' = (Inr s1, f1)"
    by (simp add: dispatch_eqs scenario_C_sums)
  from bernoulli_call_two [OF scenario_C_variants] obtain s2 f2 where
    b: "calculate_statistics scenario_C ''bernoulli'' = (Inr s2, f2)"
    by (simp add: dispatch_eqs scenario_C_sums)
  from user_level_call_two [OF scenario_C_variants] obtain s3 f3 where
    u: "calculate_statistics scenario_C ''user-level'' = (Inr s3, f3)"
    by (simp add: dispatch_eqs)
  from den_fields_by_metric_type [of scenario_C s1 f1] r g d
  have "den_0 s1 = Some [5, 5, 5] \<and> den_1 s1 = Some [5, 5, 5]" by simp
  moreover from den_fields_by_metric_type [of scenario_C s2 f2] b
  have "den_0 s2 = None \<and> den_1 s2 = None" by simp
  moreover from den_fields_by_metric_type [of scenario_C s3 f3] u
  have "den_0 s3 = None \<and> den_1 s3 = None" by simp
  ultimately show ?thesis using r b u by blast
qed

text \<open>
  Claim C9, as amended. In every record that one of the three aggregators returns on a
  frame of exactly two variants, \<open>n_0\<close> and \<open>n_1\<close> are the sums of the column \<open>n\<close>
  over the rows of the variant, not the row counts. \<open>n_i\<close> equals the length of
  \<open>num_i\<close> when every \<open>n\<close> of the variant is 1 and, provided every \<open>n\<close> of the variant
  is at least 1, only then. \<open>var_i\<close> is the sample variance over the rows of the
  variant, one cell per row and not weighted by \<open>n\<close>. For the Bernoulli and the
  user-level aggregator the cells are those of \<open>num\<close>, and the variance is the same on
  every frame with the same columns \<open>variant\<close> and \<open>num\<close>, whatever its column \<open>n\<close>.
  For the ratio aggregator the cells are those of \<open>l_ratio\<close>, and the variance is the
  same on every frame with the same columns \<open>variant\<close>, \<open>num\<close> and \<open>den\<close> on which the
  test \<open>den == n\<close> comes out the same: the column \<open>n\<close> weighs in through that test
  only.
\<close>

theorem counts_are_sums_of_n:
  assumes U: "unique (map col_variant (rows df)) = [v0, v1]"
    and R: "MetricStats_call agg df = (Inr s, df')"
  shows "n_0 s = sum_list (masked col_n v0 (rows df))
     \<and> n_1 s = sum_list (masked col_n v1 (rows df))
     \<and> num_0 s = masked col_num v0 (rows df)
     \<and> num_1 s = masked col_num v1 (rows df)
     \<and> (list_all (\<lambda>x. x = 1) (masked col_n v0 (rows df)) \<longrightarrow> n_0 s = of_nat (length (num_0 s)))
     \<and> (list_all (\<lambda>x. x = 1) (masked col_n v1 (rows df)) \<longrightarrow> n_1 s = of_nat (length (num_1 s)))
     \<and> (list_all (\<lambda>x. 1 \<le> x) (masked col_n v0 (rows df)) \<and> n_0 s = of_nat (length (num_0 s))
          \<longrightarrow> list_all (\<lambda>x. x = 1) (masked col_n v0 (rows df)))
     \<and> (list_all (\<lambda>x. 1 \<le> x) (masked col_n v1 (rows df)) \<and> n_1 s = of_nat (length (num_1 s))
          \<longrightarrow> list_all (\<lambda>x. x = 1) (masked col_n v1 (rows df)))
     \<and> (agg \<noteq> BaseStatsRatio \<longrightarrow> var_0 s = sample_var (num_0 s) \<and> var_1 s = sample_var (num_1 s))
     \<and> (agg = BaseStatsRatio \<longrightarrow> df' = snd (calculate_linearization df)
          \<and> var_0 s = series_var (masked_l_ratio df' v0)
          \<and> var_1 s = series_var (masked_l_ratio df' v1)
          \<and> length (masked_l_ratio df' v0) = length (num_0 s)
          \<and> length (masked_l_ratio df' v1) = length (num_1 s))
     \<and> (\<forall>df2 s2 df2'.
           map col_variant (rows df2) = map col_variant (rows df)
           \<and> map col_num (rows df2) = map col_num (rows df)
           \<and> MetricStats_call agg df2 = (Inr s2, df2')
           \<and> (agg = BaseStatsRatio \<longrightarrow>
                 map col_den (rows df2) = map col_den (rows df)
                 \<and> col_num_dtype df2 = col_num_dtype df
                 \<and> col_den_dtype df2 = col_den_dtype df
                 \<and> list_all (\<lambda>r. col_den r = col_n r) (rows df2)
                     = list_all (\<lambda>r. col_den r = col_n r) (rows df))
           \<longrightarrow> var_0 s2 = var_0 s \<and> var_1 s2 = var_1 s)"
proof -
  note f = call_two_fields [OF U R]
  have len: "length (masked col_n v (rows df)) = length (masked col_num v (rows df))" for v
    by (simp add: masked_def)
  have c1: "list_all (\<lambda>x. x = 1) (masked col_n v0 (rows df)) \<longrightarrow> n_0 s = of_nat (length (num_0 s))"
    using sum_all_ones [of "masked col_n v0 (rows df)"] len [of v0] f(1,3) by simp
  have c2: "list_all (\<lambda>x. x = 1) (masked col_n v1 (rows df)) \<longrightarrow> n_1 s = of_nat (length (num_1 s))"
    using sum_all_ones [of "masked col_n v1 (rows df)"] len [of v1] f(2,4) by simp
  have c3: "list_all (\<lambda>x. 1 \<le> x) (masked col_n v0 (rows df)) \<and> n_0 s = of_nat (length (num_0 s))
          \<longrightarrow> list_all (\<lambda>x. x = 1) (masked col_n v0 (rows df))"
    using sum_eq_length_ones [of "masked col_n v0 (rows df)"] len [of v0] f(1,3) by simp
  have c4: "list_all (\<lambda>x. 1 \<le> x) (masked col_n v1 (rows df)) \<and> n_1 s = of_nat (length (num_1 s))
          \<longrightarrow> list_all (\<lambda>x. x = 1) (masked col_n v1 (rows df))"
    using sum_eq_length_ones [of "masked col_n v1 (rows df)"] len [of v1] f(2,4) by simp
  have c5: "agg \<noteq> BaseStatsRatio \<longrightarrow> var_0 s = sample_var (num_0 s) \<and> var_1 s = sample_var (num_1 s)"
    using f(3,4,5,6) by simp
  have ll: "length (masked_l_ratio (snd (calculate_linearization df)) v)
            = length (masked col_num v (rows df))" for v
    using calc_lin_two_length [OF U, of v] by (simp add: masked_def)
  have c6: "agg = BaseStatsRatio \<longrightarrow> df' = snd (calculate_linearization df)
          \<and> var_0 s = series_var (masked_l_ratio df' v0)
          \<and> var_1 s = series_var (masked_l_ratio df' v1)
          \<and> length (masked_l_ratio df' v0) = length (num_0 s)
          \<and> length (masked_l_ratio df' v1) = length (num_1 s)"
    using f(3,4,7,8,9) ll by simp
  have c7: "var_0 s2 = var_0 s \<and> var_1 s2 = var_1 s"
    if V: "map col_variant (rows df2) = map col_variant (rows df)"
      and N: "map col_num (rows df2) = map col_num (rows df)"
      and R2: "MetricStats_call agg df2 = (Inr s2, df2')"
      and X: "agg = BaseStatsRatio \<longrightarrow>
                 map col_den (rows df2) = map col_den (rows df)
                 \<and> col_num_dtype df2 = col_num_dtype df
                 \<and> col_den_dtype df2 = col_den_dtype df
                 \<and> list_all (\<lambda>r. col_den r = col_n r) (rows df2)
                     = list_all (\<lambda>r. col_den r = col_n r) (rows df)"
    for df2 :: "'a dataframe" and s2 df2'
  proof -
    from U V have U2: "unique (map col_variant (rows df2)) = [v0, v1]" by simp
    note g = call_two_fields [OF U2 R2]
    show ?thesis
    proof (cases "agg = BaseStatsRatio")
      case True
      with X have D: "map col_den (rows df2) = map col_den (rows df)"
        and T: "col_num_dtype df2 = col_num_dtype df" "col_den_dtype df2 = col_den_dtype df"
        and P: "list_all (\<lambda>r. col_den r = col_n r) (rows df2)
                = list_all (\<lambda>r. col_den r = col_n r) (rows df)" by simp_all
      from ratio_cells_cong [OF U V N D T P] f(8,9) [OF True] g(8,9) [OF True]
      show ?thesis by simp
    next
      case False
      from masked_cong [OF V N] f(5,6) [OF False] g(5,6) [OF False]
      show ?thesis by simp
    qed
  qed
  have c7': "\<forall>df2 s2 df2'.
           map col_variant (rows df2) = map col_variant (rows df)
           \<and> map col_num (rows df2) = map col_num (rows df)
           \<and> MetricStats_call agg df2 = (Inr s2, df2')
           \<and> (agg = BaseStatsRatio \<longrightarrow>
                 map col_den (rows df2) = map col_den (rows df)
                 \<and> col_num_dtype df2 = col_num_dtype df
                 \<and> col_den_dtype df2 = col_den_dtype df
                 \<and> list_all (\<lambda>r. col_den r = col_n r) (rows df2)
                     = list_all (\<lambda>r. col_den r = col_n r) (rows df))
           \<longrightarrow> var_0 s2 = var_0 s \<and> var_1 s2 = var_1 s"
    using c7 by blast
  show ?thesis
    by (intro conjI) (rule f(1) f(2) f(3) f(4) c1 c2 c3 c4 c5 c6 c7')+
qed

theorem counts_are_sums_of_n_witness:
  "masked col_n ''A'' (rows unit_den_frame) = [1, 1]
   \<and> masked col_n ''B'' (rows unit_den_frame) = [2]
   \<and> (\<exists>s df'. MetricStats_call BaseStatsRatio unit_den_frame = (Inr s, df')
         \<and> n_0 s = 2 \<and> n_1 s = 2 \<and> num_0 s = [3, 5] \<and> num_1 s = [4])"
proof -
  have m: "masked col_num ''A'' (rows unit_den_frame) = [3, 5]"
    "masked col_num ''B'' (rows unit_den_frame) = [4]"
    "masked col_n ''A'' (rows unit_den_frame) = [1, 1]"
    "masked col_n ''B'' (rows unit_den_frame) = [2]"
    "sum_list (masked col_den ''A'' (rows unit_den_frame)) = 2"
    "sum_list (masked col_den ''B'' (rows unit_den_frame)) = 2"
    by (simp_all add: unit_den_frame_def mk_row_def masked_def)
  from ratio_call_two [OF unit_den_variants refl] m(5,6) obtain s df' where
    r: "MetricStats_call BaseStatsRatio unit_den_frame = (Inr s, df')" by simp
  note t = counts_are_sums_of_n [OF unit_den_variants r]
  from t m have "n_0 s = 2 \<and> n_1 s = 2 \<and> num_0 s = [3, 5] \<and> num_1 s = [4]" by simp
  with r m show ?thesis by blast
qed

text \<open>
  The claim as first stated fails twice. A first variant with the unit counts 2 and 0
  has \<open>n_0 = 2\<close>, the length of \<open>num_0\<close>, though not every count is 1. And two frames
  that differ in one unit count only, so that \<open>den = n\<close> holds in every row of the first
  and not of the second, get the variances 2 and 0 for the first variant from the ratio
  aggregator.
\<close>

theorem counts_are_sums_of_n_counterexample:
  "BaseStatsUserLevel_call zero_count_frame
     = (Inr \<lparr>mean_0 = Finite 3, mean_1 = Finite 7, var_0 = Finite (1 / 2), var_1 = Finite (1 / 2),
             n_0 = 2, n_1 = 2, num_0 = [1, 2], num_1 = [3, 4], den_0 = None, den_1 = None,
             num_dtype = Int64\<rparr>,
        zero_count_frame)
   \<and> masked col_n ''A'' (rows zero_count_frame) = [2, 0]
   \<and> map col_variant (rows den_not_n_frame) = map col_variant (rows den_is_n_frame)
   \<and> map col_num (rows den_not_n_frame) = map col_num (rows den_is_n_frame)
   \<and> map col_den (rows den_not_n_frame) = map col_den (rows den_is_n_frame)
   \<and> map col_n (rows den_is_n_frame) = [1, 2, 1, 1]
   \<and> map col_n (rows den_not_n_frame) = [3, 2, 1, 1]
   \<and> fst (BaseStatsRatio_call den_is_n_frame)
       = Inr \<lparr>mean_0 = Finite 2, mean_1 = Finite 4, var_0 = Finite 2, var_1 = Finite 2,
              n_0 = 3, n_1 = 2, num_0 = [2, 4], num_1 = [3, 5],
              den_0 = Some [1, 2], den_1 = Some [1, 1], num_dtype = Int64\<rparr>
   \<and> fst (BaseStatsRatio_call den_not_n_frame)
       = Inr \<lparr>mean_0 = Finite 2, mean_1 = Finite 4, var_0 = Finite 0, var_1 = Finite 2,
              n_0 = 5, n_1 = 2, num_0 = [2, 4], num_1 = [3, 5],
              den_0 = Some [1, 2], den_1 = Some [1, 1], num_dtype = Int64\<rparr>"
proof -
  have m: "masked col_num ''A'' (rows zero_count_frame) = [1, 2]"
    "masked col_num ''B'' (rows zero_count_frame) = [3, 4]"
    "masked col_n ''A'' (rows zero_count_frame) = [2, 0]"
    "masked col_n ''B'' (rows zero_count_frame) = [1, 1]"
    "col_num_dtype zero_count_frame = Int64"
    by (simp_all add: zero_count_frame_def mk_row_def masked_def)
  have v: "series_var [Finite 1, Finite 2] = Finite (1 / 2)"
    "series_var [Finite 3, Finite 4] = Finite (1 / 2)"
    by (simp_all add: series_var_def sample_var_def Let_def)
  have u: "BaseStatsUserLevel_call zero_count_frame
     = (Inr \<lparr>mean_0 = Finite 3, mean_1 = Finite 7, var_0 = Finite (1 / 2), var_1 = Finite (1 / 2),
             n_0 = 2, n_1 = 2, num_0 = [1, 2], num_1 = [3, 4], den_0 = None, den_1 = None,
             num_dtype = Int64\<rparr>,
        zero_count_frame)"
    using user_level_call_two [OF zero_count_variants] m v by simp
  have cols: "map col_variant (rows den_not_n_frame) = map col_variant (rows den_is_n_frame)"
    "map col_num (rows den_not_n_frame) = map col_num (rows den_is_n_frame)"
    "map col_den (rows den_not_n_frame) = map col_den (rows den_is_n_frame)"
    "map col_n (rows den_is_n_frame) = [1, 2, 1, 1]"
    "map col_n (rows den_not_n_frame) = [3, 2, 1, 1]"
    by (simp_all add: den_is_n_frame_def den_not_n_frame_def mk_row_def)
  from u m(3) cols den_is_n_result den_not_n_result show ?thesis by simp
qed

section \<open>Effect on the frame of the caller\<close>

text \<open>
  Claim C7, as amended. The user-level and the Bernoulli aggregator leave the frame they
  are given as it was. The ratio aggregator works on that frame itself, not on a copy:
  it leaves the rows as they were, and the frame has the derived column \<open>l_ratio\<close>
  afterwards, as \<open>calculate_linearization\<close> sets it.
\<close>

theorem aggregator_frame_effect:
  "snd (BaseStatsUserLevel_call df) = df
   \<and> snd (BaseStatsBernoulli_call df) = df
   \<and> rows (snd (BaseStatsRatio_call df)) = rows df
   \<and> l_ratio (snd (BaseStatsRatio_call df)) \<noteq> None
   \<and> snd (BaseStatsRatio_call df) = snd (calculate_linearization df)"
  using calc_lin_frame [of df]
  by (simp add: user_level_call_frame bernoulli_call_frame ratio_call_frame)

theorem aggregator_frame_effect_witness:
  "snd (BaseStatsUserLevel_call scenario_C) = scenario_C
   \<and> snd (BaseStatsBernoulli_call scenario_C) = scenario_C
   \<and> rows (snd (BaseStatsRatio_call scenario_C)) = rows scenario_C
   \<and> l_ratio (snd (BaseStatsRatio_call scenario_C)) \<noteq> None"
  using aggregator_frame_effect [of scenario_C] by blast

text \<open>
  The claim as first stated, that the frame of the caller holds after the call exactly
  the columns it held before, fails for the ratio aggregator on Scenario C: the frame
  had no column \<open>l_ratio\<close> and has one afterwards.
\<close>

theorem ratio_aggregator_mutates_counterexample:
  "l_ratio scenario_C = None
   \<and> l_ratio (snd (calculate_statistics scenario_C ''ratio''))
       = Some [Finite 0, Finite 0, Finite 0, Finite 10, Finite 10, Finite 10]
   \<and> snd (calculate_statistics scenario_C ''ratio'') \<noteq> scenario_C"
proof -
  have n: "l_ratio scenario_C = None" by (simp add: scenario_C_def)
  have c: "calculate_statistics scenario_C ''ratio'' = BaseStatsRatio_call scenario_C"
    by (simp add: calculate_statistics_def mappings_def)
  have a: "l_ratio (snd (calculate_statistics scenario_C ''ratio''))
       = Some [Finite 0, Finite 0, Finite 0, Finite 10, Finite 10, Finite 10]"
    using scenario_C_frame_after c by simp
  from n a have "snd (calculate_statistics scenario_C ''ratio'') \<noteq> scenario_C" by auto
  with n a show ?thesis by blast
qed

section \<open>Dispatch by metric type\<close>

text \<open>
  Claim C5. A label outside \<open>ratio\<close>, \<open>bernoulli\<close>, \<open>user-level\<close> is no key of
  \<open>mappings\<close>: \<open>calculate_statistics\<close> raises \<open>KeyError\<close> with that label to its caller and
  runs no aggregator. Each of the three labels runs the aggregator of its name.
\<close>

theorem dispatch_by_label:
  "(type \<notin> {''ratio'', ''bernoulli'', ''user-level''} \<longrightarrow>
      mappings type = None \<and> calculate_statistics df type = (Inl (KeyError type), df))
   \<and> calculate_statistics df ''ratio'' = BaseStatsRatio_call df
   \<and> calculate_statistics df ''bernoulli'' = BaseStatsBernoulli_call df
   \<and> calculate_statistics df ''user-level'' = BaseStatsUserLevel_call df"
  by (simp add: calculate_statistics_def mappings_def)

theorem dispatch_by_label_witness:
  "calculate_statistics scenario_C ''geometric'' = (Inl (KeyError ''geometric''), scenario_C)
   \<and> calculate_statistics scenario_C ''Ratio'' = (Inl (KeyError ''Ratio''), scenario_C)"
  using dispatch_by_label [of "''geometric''" scenario_C] dispatch_by_label [of "''Ratio''" scenario_C]
  by simp

section \<open>Results of the estimators\<close>

text \<open>
  Claim C4. Whatever the library test does on the record, each of the three estimators
  returns a result and lets no exception of the test through. The two fields of the
  result are unset together or set together, and they are unset exactly when the test
  raised; the exception is then the one entry added to the log.
\<close>

theorem estimators_never_raise:
  "(\<exists>r lg. TTestFromStats_call np_sqrt ttest stat logger = (Inr r, lg)
        \<and> (pvalue r = None \<longleftrightarrow> statistic r = None)
        \<and> (pvalue r = None \<longleftrightarrow> isl (ttest (mean_0 stat) (np_sqrt (var_0 stat)) (n_0 stat)
                                          (mean_1 stat) (np_sqrt (var_1 stat)) (n_1 stat))))
   \<and> (\<exists>r lg. MannWhitney_call mw stat logger = (Inr r, lg)
        \<and> (pvalue r = None \<longleftrightarrow> statistic r = None)
        \<and> (pvalue r = None \<longleftrightarrow> isl (mw (num_0 stat) (num_1 stat))))
   \<and> (\<exists>r lg. ProportionsZtest_call pz stat logger = (Inr r, lg)
        \<and> (pvalue r = None \<longleftrightarrow> statistic r = None)
        \<and> (pvalue r = None \<longleftrightarrow> isl (pz [np_sum (num_dtype stat, num_0 stat), np_sum (num_dtype stat, num_1 stat)]
                                              [n_0 stat, n_1 stat])))
   \<and> (ttest (mean_0 stat) (np_sqrt (var_0 stat)) (n_0 stat)
             (mean_1 stat) (np_sqrt (var_1 stat)) (n_1 stat) = Inl e1 \<longrightarrow>
        TTestFromStats_call np_sqrt ttest stat logger
          = (Inr \<lparr>pvalue = None, statistic = None\<rparr>, logger @ [e1]))
   \<and> (mw (num_0 stat) (num_1 stat) = Inl e2 \<longrightarrow>
        MannWhitney_call mw stat logger = (Inr \<lparr>pvalue = None, statistic = None\<rparr>, logger @ [e2]))
   \<and> (pz [np_sum (num_dtype stat, num_0 stat), np_sum (num_dtype stat, num_1 stat)] [n_0 stat, n_1 stat] = Inl e3 \<longrightarrow>
        ProportionsZtest_call pz stat logger = (Inr \<lparr>pvalue = None, statistic = None\<rparr>, logger @ [e3]))"
  by (simp add: TTestFromStats_call_def MannWhitney_call_def ProportionsZtest_call_def
      split: sum.splits prod.splits)

theorem estimators_never_raise_witness:
  "TTestFromStats_call (\<lambda>x. x) (\<lambda>m0 s0 c0 m1 s1 c1. Inl ''ValueError'') single_obs_stat []
     = (Inr (\<lparr>pvalue = None, statistic = None\<rparr> :: rat EstimatorCriteriaValues), [''ValueError''])
   \<and> (\<exists>r lg. MannWhitney_call (\<lambda>a b. (Inr (sum_list a, sum_list b) :: string + rat \<times> rat)) single_obs_stat [] = (Inr r, lg)
         \<and> pvalue r \<noteq> None \<and> statistic r \<noteq> None)"
proof -
  note t = estimators_never_raise [where np_sqrt = "\<lambda>x. x"
      and ttest = "\<lambda>m0 s0 c0 m1 s1 c1. (Inl ''ValueError'' :: string + rat \<times> rat)"
      and mw = "\<lambda>a b. (Inr (sum_list a, sum_list b) :: string + rat \<times> rat)"
      and pz = "\<lambda>a b. (Inl ''ValueError'' :: string + rat \<times> rat)"
      and stat = single_obs_stat and logger = "[]" and ?e1.0 = "''ValueError''"
      and ?e2.0 = "''ValueError''" and ?e3.0 = "''ValueError''"]
  from t show ?thesis by fastforce
qed

text \<open>
  Claim C10. The Mann-Whitney estimator reads \<open>num_0\<close> and \<open>num_1\<close> only: on two
  records that agree on these two fields it returns the same result and leaves the same
  log, whatever their means, variances, counts and denominators are.
\<close>

theorem mann_whitney_reads_num_only:
  assumes "num_0 s1 = num_0 s2" and "num_1 s1 = num_1 s2"
  shows "MannWhitney_call mw s1 logger = MannWhitney_call mw s2 logger"
  using assms by (simp add: MannWhitney_call_def)

theorem mann_whitney_reads_num_only_witness:
  "num_0 single_obs_stat = num_0 other_moments_stat
   \<and> num_1 single_obs_stat = num_1 other_moments_stat
   \<and> mean_0 single_obs_stat \<noteq> mean_0 other_moments_stat
   \<and> var_1 single_obs_stat \<noteq> var_1 other_moments_stat
   \<and> n_0 single_obs_stat \<noteq> n_0 other_moments_stat
   \<and> den_1 single_obs_stat \<noteq> den_1 other_moments_stat
   \<and> MannWhitney_call (\<lambda>a b. (Inr (sum_list a, sum_list b) :: string + rat \<times> rat)) single_obs_stat []
       = MannWhitney_call (\<lambda>a b. Inr (sum_list a, sum_list b)) other_moments_stat []"
proof -
  have a: "num_0 single_obs_stat = num_0 other_moments_stat"
    and b: "num_1 single_obs_stat = num_1 other_moments_stat"
    by (simp_all add: single_obs_stat_def other_moments_stat_def)
  from mann_whitney_reads_num_only [OF a b] a b show ?thesis
    by (simp add: single_obs_stat_def other_moments_stat_def)
qed

end
